theory Spec2Isabelle
  imports Main
begin

section \<open>JSON values and the JavaScript primitives the handlers use\<close>

text \<open>
  Request bodies and stored applicants are JSON documents. An object is a finite map from
  property names to values; the order of its properties is never observed by the handlers.
  Numbers are modelled as integers, which is what \<open>Date.now()\<close> and \<open>parseInt\<close> yield;
  numbers with a fraction and the rounding of integers beyond 2^53 are outside the model.
  JavaScript's \<open>undefined\<close> (a missing property) is \<open>None\<close> of \<open>json option\<close>.
\<close>

datatype json =
    JNull
  | JBool bool
  | JNum int
  | JStr string
  | JArr "json list"
  | JObj "string \<Rightarrow> json option"

type_synonym obj = "string \<Rightarrow> json option"

text \<open>A thrown exception; \<open>message\<close> is what \<open>error.message\<close> reads in a catch block.\<close>

datatype exn =
    TypeError string
  | IOError string
  | PlainError string
  | CastError string
  | DbError string

fun message :: "exn \<Rightarrow> string" where
  "message (TypeError m) = m"
| "message (IOError m) = m"
| "message (PlainError m) = m"
| "message (CastError m) = m"
| "message (DbError m) = m"

text \<open>Truthiness, as tested by \<open>if (x)\<close> and \<open>!x\<close>.\<close>

fun truthy :: "json option \<Rightarrow> bool" where
  "truthy None = False"
| "truthy (Some JNull) = False"
| "truthy (Some (JBool b)) = b"
| "truthy (Some (JNum n)) = (n \<noteq> 0)"
| "truthy (Some (JStr s)) = (s \<noteq> [])"
| "truthy (Some (JArr xs)) = True"
| "truthy (Some (JObj m)) = True"

text \<open>
  Strict equality \<open>===\<close> between a value read from the store and a value read from the
  request. Primitives compare by value, \<open>undefined\<close> equals \<open>undefined\<close>. Arrays and
  objects compare by reference, and a value parsed from the storage file is never the same
  reference as a value parsed from the request body, so they are never equal.
\<close>

fun strict_eq :: "json option \<Rightarrow> json option \<Rightarrow> bool" where
  "strict_eq None y = (y = None)"
| "strict_eq (Some JNull) y = (y = Some JNull)"
| "strict_eq (Some (JBool a)) y = (y = Some (JBool a))"
| "strict_eq (Some (JNum a)) y = (y = Some (JNum a))"
| "strict_eq (Some (JStr a)) y = (y = Some (JStr a))"
| "strict_eq (Some (JArr xs)) y = False"
| "strict_eq (Some (JObj m)) y = False"

text \<open>
  Property read \<open>x.k\<close> for the property names the handlers read (\<open>person\<close>). Reading a
  property of \<open>null\<close> throws; a number, boolean, string or array has no such property.
\<close>

fun member :: "json \<Rightarrow> string \<Rightarrow> exn + json option" where
  "member JNull k = Inl (TypeError (''Cannot read properties of null (reading '' @ k @ '')''))"
| "member (JObj m) k = Inr (m k)"
| "member v k = Inr None"

text \<open>\<open>Array.prototype.findIndex\<close>: the first index whose element satisfies the test;
  \<open>None\<close> stands for the result \<open>-1\<close>.\<close>

fun findIndex :: "('a \<Rightarrow> bool) \<Rightarrow> 'a list \<Rightarrow> nat option" where
  "findIndex P [] = None"
| "findIndex P (x # xs) = (if P x then Some 0 else map_option Suc (findIndex P xs))"

subsection \<open>parseInt\<close>

text \<open>
  \<open>parseInt(s)\<close> without a radix: leading (ASCII) white space is skipped, a sign is
  read, a \<open>0x\<close> prefix selects base 16, and the longest prefix of digits is converted. No
  digit at all gives \<open>NaN\<close>, which is \<open>None\<close> here.
\<close>

definition is_space :: "char \<Rightarrow> bool" where
  "is_space c = (c \<in> set [CHR '' '', CHR 0x09, CHR 0x0A, CHR 0x0B, CHR 0x0C, CHR 0x0D])"

fun position :: "'a \<Rightarrow> 'a list \<Rightarrow> nat option" where
  "position c [] = None"
| "position c (x # xs) = (if c = x then Some 0 else map_option Suc (position c xs))"

definition digit_value :: "char \<Rightarrow> nat option" where
  "digit_value c =
     (case position c ''0123456789abcdefghijklmnopqrstuvwxyz'' of
        Some n \<Rightarrow> Some n
      | None \<Rightarrow> map_option (\<lambda>n. n + 10) (position c ''ABCDEFGHIJKLMNOPQRSTUVWXYZ''))"

definition is_digit :: "nat \<Rightarrow> char \<Rightarrow> bool" where
  "is_digit radix c = (case digit_value c of None \<Rightarrow> False | Some d \<Rightarrow> d < radix)"

definition digits_value :: "nat \<Rightarrow> string \<Rightarrow> int" where
  "digits_value radix ds =
     foldl (\<lambda>acc c. acc * int radix + (case digit_value c of Some d \<Rightarrow> int d | None \<Rightarrow> 0)) 0 ds"

definition parseInt :: "string \<Rightarrow> int option" where
  "parseInt s =
     (let s1 = dropWhile is_space s;
          negative = (case s1 of c # r \<Rightarrow> c = CHR ''-'' | [] \<Rightarrow> False);
          s2 = (case s1 of c # r \<Rightarrow> if c = CHR ''-'' \<or> c = CHR ''+'' then r else s1 | [] \<Rightarrow> s1);
          hex = (take 2 s2 = ''0x'' \<or> take 2 s2 = ''0X'');
          radix = (if hex then 16 else 10);
          s3 = (if hex then drop 2 s2 else s2);
          ds = takeWhile (is_digit radix) s3
      in if ds = [] then None
         else Some ((if negative then - 1 else 1) * digits_value radix ds))"





section \<open>The file backend (server.js)\<close>

subsection \<open>State, environment and responses\<close>

text \<open>
  The storage file \<open>data/applicants.json\<close> is absent, present but unreadable (reading
  or \<open>JSON.parse\<close> throws), or holds an array of applicant objects, which is the only
  shape the server ever writes. \<open>public_files\<close> maps a path below \<open>public/\<close> to the
  bytes stored there; \<open>path.join\<close>'s normalisation of dot segments is not modelled.
  A write that fails is taken to leave the storage file as it was.
\<close>

datatype file_content = Missing | Unreadable | Data "obj list"

record fs_state =
  applicants_file :: file_content
  public_files :: "string \<Rightarrow> string option"

text \<open>What a request reads from its surroundings: the clock, and whether disk operations succeed.\<close>

record env =
  now :: int
  today :: string
  write_ok :: bool
  unlink_ok :: "string \<Rightarrow> bool"
  store_ok :: bool

datatype body = JsonBody json | ErrorPage string

record response =
  status :: nat
  body :: body

definition send :: "nat \<Rightarrow> obj \<Rightarrow> response" where
  "send code m = \<lparr>status = code, body = JsonBody (JObj m)\<rparr>"

definition failure :: "nat \<Rightarrow> string \<Rightarrow> response" where
  "failure code msg = send code [''success'' \<mapsto> JBool False, ''error'' \<mapsto> JStr msg]"

subsection \<open>readApplicants and writeApplicants\<close>

definition readApplicants :: "fs_state \<Rightarrow> obj list" where
  "readApplicants fs =
     (case applicants_file fs of
        Missing \<Rightarrow> []
      | Unreadable \<Rightarrow> []
      | Data applicants \<Rightarrow> applicants)"

definition writeApplicants :: "env \<Rightarrow> obj list \<Rightarrow> fs_state \<Rightarrow> bool \<times> fs_state" where
  "writeApplicants e applicants fs =
     (if write_ok e then (True, fs\<lparr>applicants_file := Data applicants\<rparr>) else (False, fs))"

text \<open>The test \<open>a.id === applicantId\<close>; \<open>NaN\<close> is equal to nothing.\<close>

definition has_id :: "int option \<Rightarrow> obj \<Rightarrow> bool" where
  "has_id applicantId a =
     (case applicantId of None \<Rightarrow> False | Some n \<Rightarrow> strict_eq (a ''id'') (Some (JNum n)))"

subsection \<open>GET, POST and PUT /api/applicants\<close>

definition get_applicants :: "fs_state \<Rightarrow> response \<times> fs_state" where
  "get_applicants fs =
     (\<lparr>status = 200, body = JsonBody (JArr (map JObj (readApplicants fs)))\<rparr>, fs)"

definition post_applicant :: "env \<Rightarrow> obj \<Rightarrow> fs_state \<Rightarrow> response \<times> fs_state" where
  "post_applicant e req_body fs =
     (let applicants = readApplicants fs;
          newApplicant = req_body(''id'' \<mapsto> JNum (now e), ''dateAdded'' \<mapsto> JStr (today e));
          applicants' = applicants @ [newApplicant]
      in case writeApplicants e applicants' fs of
           (True, fs') \<Rightarrow>
             (send 200 [''success'' \<mapsto> JBool True, ''applicant'' \<mapsto> JObj newApplicant], fs')
         | (False, fs') \<Rightarrow> (failure 500 ''Failed to save applicant'', fs'))"

definition put_applicant :: "env \<Rightarrow> string \<Rightarrow> obj \<Rightarrow> fs_state \<Rightarrow> response \<times> fs_state" where
  "put_applicant e id_param req_body fs =
     (let applicants = readApplicants fs;
          applicantId = parseInt id_param
      in case findIndex (has_id applicantId) applicants of
           Some index \<Rightarrow>
             (let applicants' = applicants[index := (applicants ! index) ++ req_body]
              in case writeApplicants e applicants' fs of
                   (True, fs') \<Rightarrow>
                     (send 200 [''success'' \<mapsto> JBool True,
                                ''applicant'' \<mapsto> JObj (applicants' ! index)], fs')
                 | (False, fs') \<Rightarrow> (failure 500 ''Failed to update applicant'', fs'))
         | None \<Rightarrow> (failure 404 ''Applicant not found'', fs))"

subsection \<open>DELETE /api/applicants/:id and DELETE /api/clear-all\<close>

text \<open>
  The clean-up of one applicant's resume: a truthy \<open>resumePath\<close> that is not a string
  makes \<open>path.join\<close> throw; an existing file is unlinked, which may throw as well.
\<close>

definition remove_resume :: "env \<Rightarrow> obj \<Rightarrow> fs_state \<Rightarrow> exn + fs_state" where
  "remove_resume e applicant fs =
     (if truthy (applicant ''resumePath'') then
        (case applicant ''resumePath'' of
           Some (JStr resumeFilePath) \<Rightarrow>
             (if public_files fs resumeFilePath \<noteq> None then
                (if unlink_ok e resumeFilePath
                 then Inr (fs\<lparr>public_files := (public_files fs)(resumeFilePath := None)\<rparr>)
                 else Inl (IOError (''unlink failed: '' @ resumeFilePath)))
              else Inr fs)
         | _ \<Rightarrow> Inl (TypeError ''The paths[2] argument must be of type string''))
      else Inr fs)"

definition delete_applicant :: "env \<Rightarrow> string \<Rightarrow> fs_state \<Rightarrow> response \<times> fs_state" where
  "delete_applicant e id_param fs =
     (let applicants = readApplicants fs;
          applicantId = parseInt id_param
      in case findIndex (has_id applicantId) applicants of
           Some index \<Rightarrow>
             (case remove_resume e (applicants ! index) fs of
                Inl err \<Rightarrow> (failure 500 (message err), fs)
              | Inr fs1 \<Rightarrow>
                  (let applicants' = take index applicants @ drop (Suc index) applicants
                   in case writeApplicants e applicants' fs1 of
                        (True, fs2) \<Rightarrow> (send 200 [''success'' \<mapsto> JBool True], fs2)
                      | (False, fs2) \<Rightarrow> (failure 500 ''Failed to delete applicant'', fs2)))
         | None \<Rightarrow> (failure 404 ''Applicant not found'', fs))"

text \<open>The \<open>forEach\<close> of clear-all stops at the first exception; files unlinked before it stay removed.\<close>

fun remove_resumes :: "env \<Rightarrow> obj list \<Rightarrow> fs_state \<Rightarrow> exn option \<times> fs_state" where
  "remove_resumes e [] fs = (None, fs)"
| "remove_resumes e (applicant # rest) fs =
     (case remove_resume e applicant fs of
        Inl err \<Rightarrow> (Some err, fs)
      | Inr fs1 \<Rightarrow> remove_resumes e rest fs1)"

definition clear_all :: "env \<Rightarrow> fs_state \<Rightarrow> response \<times> fs_state" where
  "clear_all e fs =
     (let applicants = readApplicants fs
      in case remove_resumes e applicants fs of
           (Some err, fs1) \<Rightarrow> (failure 500 (message err), fs1)
         | (None, fs1) \<Rightarrow>
             (case writeApplicants e [] fs1 of
                (True, fs2) \<Rightarrow> (send 200 [''success'' \<mapsto> JBool True], fs2)
              | (False, fs2) \<Rightarrow> (failure 500 ''Failed to clear applicants'', fs2)))"

subsection \<open>POST /api/applicants/:id/comments\<close>

text \<open>
  \<open>comments.filter(comment => comment.person !== req.body.person)\<close>: the entries are
  visited in order, and reading \<open>person\<close> of a \<open>null\<close> entry throws.
\<close>

fun filter_comments :: "obj \<Rightarrow> json list \<Rightarrow> exn + json list" where
  "filter_comments req_body [] = Inr []"
| "filter_comments req_body (comment # rest) =
     (case member comment ''person'' of
        Inl err \<Rightarrow> Inl err
      | Inr person \<Rightarrow>
          (case filter_comments req_body rest of
             Inl err \<Rightarrow> Inl err
           | Inr kept \<Rightarrow>
               Inr (if \<not> strict_eq person (req_body ''person'') then comment # kept else kept)))"

text \<open>\<open>if (!applicants[index].comments) applicants[index].comments = []\<close>: the value
  \<open>filter\<close> is then called on.\<close>

definition comments_or_empty :: "obj \<Rightarrow> json option" where
  "comments_or_empty applicant =
     (if \<not> truthy (applicant ''comments'') then Some (JArr []) else applicant ''comments'')"

definition post_comment :: "env \<Rightarrow> string \<Rightarrow> obj \<Rightarrow> fs_state \<Rightarrow> response \<times> fs_state" where
  "post_comment e id_param req_body fs =
     (let applicants = readApplicants fs;
          applicantId = parseInt id_param
      in case findIndex (has_id applicantId) applicants of
           Some index \<Rightarrow>
             (let applicant = applicants ! index;
                  comments = comments_or_empty applicant
              in case comments of
                   Some (JArr cs) \<Rightarrow>
                     (case filter_comments req_body cs of
                        Inl err \<Rightarrow> (failure 500 (message err), fs)
                      | Inr kept \<Rightarrow>
                          (let applicants' =
                                 applicants[index :=
                                   applicant(''comments'' \<mapsto> JArr (kept @ [JObj req_body]))]
                           in case writeApplicants e applicants' fs of
                                (True, fs') \<Rightarrow>
                                  (send 200 [''success'' \<mapsto> JBool True,
                                             ''comment'' \<mapsto> JObj req_body], fs')
                              | (False, fs') \<Rightarrow> (failure 500 ''Failed to add comment'', fs')))
                 | _ \<Rightarrow>
                     (failure 500 ''applicants[index].comments.filter is not a function'', fs))
         | None \<Rightarrow> (failure 404 ''Applicant not found'', fs))"

subsection \<open>POST /api/upload-resume\<close>










subsection \<open>The requests of the JSON interface\<close>

text \<open>A request of the JSON interface, with the path parameter as the text the router
  passes and the body as the object \<open>express.json()\<close> parsed.\<close>

datatype request =
    ListAll
  | Insert obj
  | Update string obj
  | Remove string
  | AddComment string obj
  | ClearAll

fun file_handle :: "env \<Rightarrow> request \<Rightarrow> fs_state \<Rightarrow> response \<times> fs_state" where
  "file_handle e ListAll fs = get_applicants fs"
| "file_handle e (Insert req_body) fs = post_applicant e req_body fs"
| "file_handle e (Update id_param req_body) fs = put_applicant e id_param req_body fs"
| "file_handle e (Remove id_param) fs = delete_applicant e id_param fs"
| "file_handle e (AddComment id_param req_body) fs = post_comment e id_param req_body fs"
| "file_handle e ClearAll fs = clear_all e fs"


text \<open>A run of requests, each with the environment it meets.\<close>

fun file_run :: "(env \<times> request) list \<Rightarrow> fs_state \<Rightarrow> fs_state" where
  "file_run [] fs = fs"
| "file_run ((e, r) # rest) fs = file_run rest (snd (file_handle e r fs))"

section \<open>The document backend (mongoose)\<close>

subsection \<open>The collection and the library's part\<close>

text \<open>
  The collection is the list of its documents in natural order. The handlers are a thin
  layer over mongoose; what the library does to the declared fields of a payload (casting
  values, adding \<open>_id\<close>, defaults and the version key) is not code of this repository and
  is taken from the environment:
  \<^item> \<open>construct\<close>: the document \<open>new Applicant(fields)\<close> stores on \<open>save()\<close>, or the
    validation error;
  \<^item> \<open>cast_update\<close>: the top-level assignments \<open>$set\<close> applies for a payload;
  \<^item> \<open>pull_condition\<close>: which array entries the condition \<open>{person: v}\<close> of \<open>$pull\<close> matches;
  \<^item> \<open>cast_comment\<close>: the sub-document \<open>$push\<close> appends for a payload;
  \<^item> \<open>db_fault n\<close>: the message with which the \<open>n\<close>-th database operation of the
    request rejects (connection loss, duplicate key, ...), if it does.
\<close>

type_synonym collection = "obj list"

text \<open>
  The two schemas, as declared: the paths and their types. The comment schema has
  \<open>_id: false\<close>, so a stored comment has no field beyond the declared ones; a rejection by
  \<open>required\<close> or by the unique index of \<open>id\<close> is one of the errors of the environment
  below. Mongoose's default strict mode
  ignores every payload field that names no path of the schema: the document constructor,
  the update cast and the sub-document cast never see it. A key that is a nested path
  (it contains a dot), an operator (it starts with \<open>$\<close>) or one of the library's own fields
  \<open>_id\<close> and \<open>__v\<close> is not a plain field name and is left to the library.
\<close>

datatype schema_type = SchemaString | SchemaNumber | SchemaComments

definition commentSchema :: "(string \<times> schema_type) list" where
  "commentSchema =
     [(''person'', SchemaString), (''text'', SchemaString), (''date'', SchemaString)]"

definition applicantSchema :: "(string \<times> schema_type) list" where
  "applicantSchema =
     [(''id'', SchemaNumber), (''fullName'', SchemaString), (''linkedinUrl'', SchemaString),
      (''expectedSalary'', SchemaString), (''notes'', SchemaString),
      (''resumeName'', SchemaString), (''resumePath'', SchemaString),
      (''dateAdded'', SchemaString), (''comments'', SchemaComments)]"

definition plain_key :: "string \<Rightarrow> bool" where
  "plain_key k = (CHR ''.'' \<notin> set k \<and> take 1 k \<noteq> ''$'' \<and> k \<noteq> ''_id'' \<and> k \<noteq> ''__v'')"

definition strict :: "(string \<times> schema_type) list \<Rightarrow> obj \<Rightarrow> obj" where
  "strict schema payload =
     (\<lambda>k. if plain_key k \<and> map_of schema k = None then None else payload k)"

record db_env =
  db_now :: int
  db_today :: string
  db_fault :: "nat \<Rightarrow> string option"
  construct :: "obj \<Rightarrow> exn + obj"
  cast_update :: "obj \<Rightarrow> exn + obj"
  pull_condition :: "json option \<Rightarrow> exn + (json \<Rightarrow> bool)"
  cast_comment :: "obj \<Rightarrow> exn + obj"

text \<open>
  The filter \<open>{id: applicantId}\<close> is cast against the schema path \<open>id: Number\<close> before
  the query is sent; mongoose's number cast rejects \<open>NaN\<close> with a CastError.
\<close>

definition cast_number :: "int option \<Rightarrow> exn + int" where
  "cast_number v =
     (case v of
        None \<Rightarrow> Inl (CastError ''Cast to Number failed for value NaN (type number) at path id'')
      | Some n \<Rightarrow> Inr n)"

definition doc_has_id :: "int \<Rightarrow> obj \<Rightarrow> bool" where
  "doc_has_id n doc = (doc ''id'' = Some (JNum n))"

definition db_call :: "db_env \<Rightarrow> nat \<Rightarrow> exn + unit" where
  "db_call e n = (case db_fault e n of Some m \<Rightarrow> Inl (DbError m) | None \<Rightarrow> Inr ())"

text \<open>The update operators on one matched document.\<close>

definition set_fields :: "obj \<Rightarrow> obj \<Rightarrow> obj" where
  "set_fields assignments doc = doc ++ assignments"

definition pull_comments :: "(json \<Rightarrow> bool) \<Rightarrow> obj \<Rightarrow> exn + obj" where
  "pull_comments matches doc =
     (case doc ''comments'' of
        None \<Rightarrow> Inr doc
      | Some (JArr cs) \<Rightarrow> Inr (doc(''comments'' \<mapsto> JArr (filter (\<lambda>c. \<not> matches c) cs)))
      | Some v \<Rightarrow> Inl (DbError ''Cannot apply $pull to a non-array value''))"

definition push_comment :: "obj \<Rightarrow> obj \<Rightarrow> exn + obj" where
  "push_comment comment doc =
     (case doc ''comments'' of
        None \<Rightarrow> Inr (doc(''comments'' \<mapsto> JArr [JObj comment]))
      | Some (JArr cs) \<Rightarrow> Inr (doc(''comments'' \<mapsto> JArr (cs @ [JObj comment])))
      | Some v \<Rightarrow> Inl (DbError ''The field comments must be an array''))"

text \<open>
  \<open>updateOne\<close> and \<open>findOneAndUpdate\<close> with \<open>new: true\<close>: the first document with the id
  is replaced by its update; the result is the updated document, or \<open>None\<close> for \<open>null\<close>.
\<close>

definition update_one ::
    "int \<Rightarrow> (obj \<Rightarrow> exn + obj) \<Rightarrow> collection \<Rightarrow> exn + (obj option \<times> collection)" where
  "update_one n upd coll =
     (case findIndex (doc_has_id n) coll of
        None \<Rightarrow> Inr (None, coll)
      | Some i \<Rightarrow>
          (case upd (coll ! i) of
             Inl err \<Rightarrow> Inl err
           | Inr doc \<Rightarrow> Inr (Some doc, coll[i := doc])))"

subsection \<open>The handlers\<close>

definition db_get_applicants :: "db_env \<Rightarrow> collection \<Rightarrow> response \<times> collection" where
  "db_get_applicants e coll =
     (case db_call e 0 of
        Inl err \<Rightarrow> (send 500 [''error'' \<mapsto> JStr ''Failed to fetch applicants''], coll)
      | Inr u \<Rightarrow> (\<lparr>status = 200, body = JsonBody (JArr (map JObj coll))\<rparr>, coll))"

definition db_post_applicant :: "db_env \<Rightarrow> obj \<Rightarrow> collection \<Rightarrow> response \<times> collection" where
  "db_post_applicant e req_body coll =
     (case construct e (strict applicantSchema
             (req_body(''id'' \<mapsto> JNum (db_now e), ''dateAdded'' \<mapsto> JStr (db_today e)))) of
        Inl err \<Rightarrow> (failure 500 (message err), coll)
      | Inr newApplicant \<Rightarrow>
          (case db_call e 0 of
             Inl err \<Rightarrow> (failure 500 (message err), coll)
           | Inr u \<Rightarrow>
               (send 200 [''success'' \<mapsto> JBool True, ''applicant'' \<mapsto> JObj newApplicant],
                coll @ [newApplicant])))"

definition db_put_applicant ::
    "db_env \<Rightarrow> string \<Rightarrow> obj \<Rightarrow> collection \<Rightarrow> response \<times> collection" where
  "db_put_applicant e id_param req_body coll =
     (case cast_number (parseInt id_param) of
        Inl err \<Rightarrow> (failure 500 (message err), coll)
      | Inr applicantId \<Rightarrow>
          (case cast_update e (strict applicantSchema req_body) of
             Inl err \<Rightarrow> (failure 500 (message err), coll)
           | Inr assignments \<Rightarrow>
               (case db_call e 0 of
                  Inl err \<Rightarrow> (failure 500 (message err), coll)
                | Inr u \<Rightarrow>
                    (case update_one applicantId (\<lambda>doc. Inr (set_fields assignments doc)) coll of
                       Inl err \<Rightarrow> (failure 500 (message err), coll)
                     | Inr (Some updatedApplicant, coll') \<Rightarrow>
                         (send 200 [''success'' \<mapsto> JBool True,
                                    ''applicant'' \<mapsto> JObj updatedApplicant], coll')
                     | Inr (None, coll') \<Rightarrow> (failure 404 ''Applicant not found'', coll')))))"

definition db_delete_applicant :: "db_env \<Rightarrow> string \<Rightarrow> collection \<Rightarrow> response \<times> collection" where
  "db_delete_applicant e id_param coll =
     (case cast_number (parseInt id_param) of
        Inl err \<Rightarrow> (failure 500 (message err), coll)
      | Inr applicantId \<Rightarrow>
          (case db_call e 0 of
             Inl err \<Rightarrow> (failure 500 (message err), coll)
           | Inr u \<Rightarrow>
               (case findIndex (doc_has_id applicantId) coll of
                  Some i \<Rightarrow> (send 200 [''success'' \<mapsto> JBool True], take i coll @ drop (Suc i) coll)
                | None \<Rightarrow> (failure 404 ''Applicant not found'', coll))))"

text \<open>
  The comment handler issues two operations in sequence: the pull, then the push. A failure
  of the second leaves the effect of the first in the collection.
\<close>

definition db_post_comment ::
    "db_env \<Rightarrow> string \<Rightarrow> obj \<Rightarrow> collection \<Rightarrow> response \<times> collection" where
  "db_post_comment e id_param req_body coll =
     (case cast_number (parseInt id_param) of
        Inl err \<Rightarrow> (failure 500 (message err), coll)
      | Inr applicantId \<Rightarrow>
          (case pull_condition e (req_body ''person'') of
             Inl err \<Rightarrow> (failure 500 (message err), coll)
           | Inr matches \<Rightarrow>
               (case db_call e 0 of
                  Inl err \<Rightarrow> (failure 500 (message err), coll)
                | Inr u \<Rightarrow>
                    (case update_one applicantId (pull_comments matches) coll of
                       Inl err \<Rightarrow> (failure 500 (message err), coll)
                     | Inr (pulled, coll1) \<Rightarrow>
                         (case cast_comment e (strict commentSchema req_body) of
                            Inl err \<Rightarrow> (failure 500 (message err), coll1)
                          | Inr comment \<Rightarrow>
                              (case db_call e 1 of
                                 Inl err \<Rightarrow> (failure 500 (message err), coll1)
                               | Inr u \<Rightarrow>
                                   (case update_one applicantId (push_comment comment) coll1 of
                                      Inl err \<Rightarrow> (failure 500 (message err), coll1)
                                    | Inr (Some updatedApplicant, coll2) \<Rightarrow>
                                        (send 200 [''success'' \<mapsto> JBool True,
                                                   ''comment'' \<mapsto> JObj req_body], coll2)
                                    | Inr (None, coll2) \<Rightarrow>
                                        (failure 404 ''Applicant not found'', coll2))))))))"

definition db_clear_all :: "db_env \<Rightarrow> collection \<Rightarrow> response \<times> collection" where
  "db_clear_all e coll =
     (case db_call e 0 of
        Inl err \<Rightarrow> (failure 500 (message err), coll)
      | Inr u \<Rightarrow> (send 200 [''success'' \<mapsto> JBool True], []))"

fun db_handle :: "db_env \<Rightarrow> request \<Rightarrow> collection \<Rightarrow> response \<times> collection" where
  "db_handle e ListAll coll = db_get_applicants e coll"
| "db_handle e (Insert req_body) coll = db_post_applicant e req_body coll"
| "db_handle e (Update id_param req_body) coll = db_put_applicant e id_param req_body coll"
| "db_handle e (Remove id_param) coll = db_delete_applicant e id_param coll"
| "db_handle e (AddComment id_param req_body) coll = db_post_comment e id_param req_body coll"
| "db_handle e ClearAll coll = db_clear_all e coll"


fun db_run :: "(db_env \<times> request) list \<Rightarrow> collection \<Rightarrow> collection" where
  "db_run [] coll = coll"
| "db_run ((e, r) # rest) coll = db_run rest (snd (db_handle e r coll))"


section \<open>Vocabulary of the properties\<close>

text \<open>\<open>comment.person\<close> for an entry that is not \<open>null\<close>.\<close>

fun person :: "json \<Rightarrow> json option" where
  "person (JObj m) = m ''person''"
| "person v = None"







text \<open>The two fields fixed at creation, and the update and comment requests that do not
  name them in their payload.\<close>

definition id_and_date :: "obj \<Rightarrow> json option \<times> json option" where
  "id_and_date applicant = (applicant ''id'', applicant ''dateAdded'')"

fun keeps_identity :: "env \<times> request \<Rightarrow> bool" where
  "keeps_identity (e, Update id_param req_body) =
     (req_body ''id'' = None \<and> req_body ''dateAdded'' = None)"
| "keeps_identity (e, AddComment id_param req_body) = True"
| "keeps_identity (e, r) = False"

text \<open>The same for the document backend, where the fields an update assigns are those the
  library derives from the payload.\<close>

fun db_keeps_identity :: "db_env \<times> request \<Rightarrow> bool" where
  "db_keeps_identity (e, Update id_param req_body) =
     (case cast_update e (strict applicantSchema req_body) of
        Inl err \<Rightarrow> True
      | Inr assignments \<Rightarrow> assignments ''id'' = None \<and> assignments ''dateAdded'' = None)"
| "db_keeps_identity (e, AddComment id_param req_body) = True"
| "db_keeps_identity (e, r) = False"



definition stored_comments :: "fs_state \<Rightarrow> nat \<Rightarrow> json option" where
  "stored_comments fs i = (readApplicants fs ! i) ''comments''"

subsection \<open>Concrete inputs\<close>

definition comment_of :: "string \<Rightarrow> string \<Rightarrow> obj" where
  "comment_of who what =
     [''person'' \<mapsto> JStr who, ''text'' \<mapsto> JStr what, ''date'' \<mapsto> JStr ''2024-01-02'']"

definition env0 :: env where
  "env0 = \<lparr>now = 1700, today = ''1/2/2024'', write_ok = True,
           unlink_ok = (\<lambda>p. True), store_ok = True\<rparr>"

definition fs_empty :: fs_state where
  "fs_empty = \<lparr>applicants_file = Missing, public_files = Map.empty\<rparr>"

definition fs_unreadable :: fs_state where
  "fs_unreadable = \<lparr>applicants_file = Unreadable, public_files = Map.empty\<rparr>"

definition applicant0 :: obj where
  "applicant0 = [''id'' \<mapsto> JNum 1700, ''fullName'' \<mapsto> JStr ''Ada'', ''notes'' \<mapsto> JStr ''none'',
                 ''dateAdded'' \<mapsto> JStr ''1/2/2024'',
                 ''comments'' \<mapsto> JArr [JObj (comment_of ''Alice'' ''first''),
                                          JObj (comment_of ''Bob'' ''hello'')]]"

definition fs_one :: fs_state where
  "fs_one = \<lparr>applicants_file = Data [applicant0], public_files = Map.empty\<rparr>"

definition dup_comments :: obj where
  "dup_comments = [''comments'' \<mapsto> JArr [JObj (comment_of ''Alice'' ''first''),
                                            JObj (comment_of ''Alice'' ''again'')]]"

definition new_identity :: obj where
  "new_identity = [''id'' \<mapsto> JNum 99, ''dateAdded'' \<mapsto> JStr ''never'']"



definition db_env0 :: db_env where
  "db_env0 = \<lparr>db_now = 1700, db_today = ''1/2/2024'', db_fault = (\<lambda>n. None),
              construct = Inr, cast_update = Inr,
              pull_condition = (\<lambda>v. Inr (\<lambda>c. person c = v)), cast_comment = Inr\<rparr>"

definition db_env_down :: db_env where
  "db_env_down = db_env0\<lparr>db_fault := (\<lambda>n. Some ''connection lost'')\<rparr>"






section \<open>Auxiliary facts\<close>

lemma findIndex_Some_iff:
  "findIndex P xs = Some i \<longleftrightarrow> i < length xs \<and> P (xs ! i) \<and> (\<forall>j<i. \<not> P (xs ! j))"
proof (induction xs arbitrary: i)
  case Nil
  then show ?case by simp
next
  case (Cons x xs)
  show ?case
  proof (cases "P x")
    case True
    then show ?thesis by (cases i) auto
  next
    case False
    show ?thesis
    proof (cases i)
      case 0
      with False show ?thesis by simp
    next
      case (Suc k)
      have "(\<forall>j<Suc k. \<not> P ((x # xs) ! j)) \<longleftrightarrow> (\<forall>j<k. \<not> P (xs ! j))"
        using False by (auto simp: less_Suc_eq_0_disj)
      with False Suc Cons.IH [of k] show ?thesis by auto
    qed
  qed
qed






lemma parseInt_1700: "parseInt ''1700'' = Some 1700"
  by code_simp



section \<open>The comment merge\<close>







text \<open>The same from an empty store: Alice then Bob gives the two comments in that order,
  and Alice again moves her comment behind Bob's.\<close>

lemma alice_bob_alice:
  "stored_comments
     (file_run [(env0, Insert Map.empty),
                (env0, AddComment ''1700'' (comment_of ''Alice'' ''first'')),
                (env0, AddComment ''1700'' (comment_of ''Bob'' ''hello''))] fs_empty) 0 =
     Some (JArr [JObj (comment_of ''Alice'' ''first''), JObj (comment_of ''Bob'' ''hello'')])"
  "stored_comments
     (file_run [(env0, Insert Map.empty),
                (env0, AddComment ''1700'' (comment_of ''Alice'' ''first'')),
                (env0, AddComment ''1700'' (comment_of ''Bob'' ''hello'')),
                (env0, AddComment ''1700'' (comment_of ''Alice'' ''second''))] fs_empty) 0 =
     Some (JArr [JObj (comment_of ''Bob'' ''hello''), JObj (comment_of ''Alice'' ''second'')])"
  by (simp_all add: stored_comments_def post_applicant_def post_comment_def readApplicants_def
      writeApplicants_def fs_empty_def env0_def has_id_def parseInt_1700 comments_or_empty_def
      comment_of_def Let_def)



section \<open>Update\<close>








section \<open>Insert, then list\<close>


lemma strict_idem: "strict schema (strict schema payload) = strict schema payload"
  by (rule ext) (simp add: strict_def)


lemma db_update_ignores_undeclared:
  "db_put_applicant de id_param payload coll =
   db_put_applicant de id_param (strict applicantSchema payload) coll"
  by (simp add: db_put_applicant_def strict_idem cong: sum.case_cong)





section \<open>The comment policy as an invariant\<close>





























text \<open>The document backend stores the two comments of Alice as well.\<close>

lemma db_duplicates_stored:
  "(snd (db_handle db_env0 (Update ''1700'' dup_comments) [applicant0]) ! 0) ''comments'' =
     Some (JArr [JObj (comment_of ''Alice'' ''first''), JObj (comment_of ''Alice'' ''again'')])"
  by (simp add: db_put_applicant_def cast_number_def db_call_def update_one_def set_fields_def
      db_env0_def parseInt_1700 doc_has_id_def applicant0_def dup_comments_def
      strict_def applicantSchema_def plain_key_def map_add_def)

section \<open>The fields fixed at creation\<close>

lemma id_and_date_comments [simp]:
  "id_and_date (a(''comments'' \<mapsto> v)) = id_and_date a"
  by (simp add: id_and_date_def)

lemma id_and_date_merge:
  "b ''id'' = None \<Longrightarrow> b ''dateAdded'' = None \<Longrightarrow> id_and_date (a ++ b) = id_and_date a"
  by (simp add: id_and_date_def map_add_def)

lemma map_update_same:
  "i < length xs \<Longrightarrow> f y = f (xs ! i) \<Longrightarrow> map f (xs[i := y]) = map f xs"
  by (simp add: map_update list_eq_iff_nth_eq nth_list_update)

lemma put_applicant_identity:
  assumes "b ''id'' = None" and "b ''dateAdded'' = None"
  shows "map id_and_date (readApplicants (snd (put_applicant e i b fs))) =
         map id_and_date (readApplicants fs)"
proof (cases "findIndex (has_id (parseInt i)) (readApplicants fs)")
  case None
  then show ?thesis by (simp add: put_applicant_def)
next
  case (Some index)
  then have bound: "index < length (readApplicants fs)" by (simp add: findIndex_Some_iff)
  have "map id_and_date ((readApplicants fs)[index := readApplicants fs ! index ++ b]) =
        map id_and_date (readApplicants fs)"
    using bound assms by (simp add: map_update_same id_and_date_merge)
  with Some show ?thesis
    by (simp add: put_applicant_def writeApplicants_def Let_def) (simp add: readApplicants_def)
qed

lemma post_comment_identity:
  "map id_and_date (readApplicants (snd (post_comment e i b fs))) =
   map id_and_date (readApplicants fs)"
proof (cases "findIndex (has_id (parseInt i)) (readApplicants fs)")
  case None
  then show ?thesis by (simp add: post_comment_def)
next
  case (Some index)
  then have bound: "index < length (readApplicants fs)" by (simp add: findIndex_Some_iff)
  have upd: "map id_and_date ((readApplicants fs)[index :=
               (readApplicants fs ! index)(''comments'' \<mapsto> v)]) =
             map id_and_date (readApplicants fs)" for v
    using bound by (simp add: map_update_same)
  show ?thesis
  proof (cases "write_ok e")
    case True
    with Some upd show ?thesis
      by (auto simp: post_comment_def writeApplicants_def Let_def readApplicants_def
          split: option.splits json.splits sum.splits)
  next
    case False
    with Some show ?thesis
      by (auto simp: post_comment_def writeApplicants_def Let_def
          split: option.splits json.splits sum.splits)
  qed
qed


lemma file_identity_kept:
  "list_all keeps_identity ops \<Longrightarrow>
   map id_and_date (readApplicants (file_run ops fs)) = map id_and_date (readApplicants fs)"
proof (induction ops arbitrary: fs)
  case Nil
  then show ?case by simp
next
  case (Cons op ops)
  obtain e r where op: "op = (e, r)" by (cases op)
  from Cons.prems op have step: "keeps_identity (e, r)" and rest: "list_all keeps_identity ops"
    by simp_all
  have "map id_and_date (readApplicants (snd (file_handle e r fs))) =
        map id_and_date (readApplicants fs)"
    using step by (cases r) (simp_all add: put_applicant_identity post_comment_identity)
  with Cons.IH [OF rest, of "snd (file_handle e r fs)"] op show ?case by simp
qed



lemma pull_comments_identity:
  "pull_comments matches doc = Inr doc' \<Longrightarrow> id_and_date doc' = id_and_date doc"
  by (auto simp: pull_comments_def id_and_date_def split: option.splits json.splits)

lemma push_comment_identity:
  "push_comment c doc = Inr doc' \<Longrightarrow> id_and_date doc' = id_and_date doc"
  by (auto simp: push_comment_def id_and_date_def split: option.splits json.splits)

lemma update_one_identity:
  assumes "\<And>doc doc'. upd doc = Inr doc' \<Longrightarrow> id_and_date doc' = id_and_date doc"
    and "update_one n upd coll = Inr (res, coll')"
  shows "map id_and_date coll' = map id_and_date coll"
proof (cases "findIndex (doc_has_id n) coll")
  case None
  with assms(2) show ?thesis by (simp add: update_one_def)
next
  case (Some i)
  then have bound: "i < length coll" by (simp add: findIndex_Some_iff)
  from Some assms(2) obtain doc where "upd (coll ! i) = Inr doc" and "coll' = coll[i := doc]"
    by (auto simp: update_one_def split: sum.splits)
  with assms(1) bound show ?thesis by (simp add: map_update_same)
qed

lemma db_put_applicant_identity:
  assumes "db_keeps_identity (e, Update i b)"
  shows "map id_and_date (snd (db_put_applicant e i b coll)) = map id_and_date coll"
proof -
  have "map id_and_date coll' = map id_and_date coll"
    if "cast_update e (strict applicantSchema b) = Inr a"
      and "update_one n (\<lambda>doc. Inr (set_fields a doc)) coll = Inr (res, coll')" for a n res coll'
  proof (rule update_one_identity [OF _ that(2)])
    fix doc doc' :: obj
    assume "Inr (set_fields a doc) = (Inr doc' :: exn + obj)"
    then have "doc' = doc ++ a" by (simp add: set_fields_def)
    moreover from assms that(1) have "a ''id'' = None" "a ''dateAdded'' = None" by simp_all
    ultimately show "id_and_date doc' = id_and_date doc" by (simp add: id_and_date_merge)
  qed
  then show ?thesis
    by (auto simp: db_put_applicant_def split: sum.splits option.splits prod.splits)
qed

lemma db_post_comment_identity:
  "map id_and_date (snd (db_post_comment e i b coll)) = map id_and_date coll"
proof -
  have one: "map id_and_date coll1 = map id_and_date coll"
    if "update_one n (pull_comments m) coll = Inr (res, coll1)" for n m res coll1
    using update_one_identity [OF pull_comments_identity that] .
  have two: "map id_and_date coll2 = map id_and_date coll1"
    if "update_one n (push_comment c) coll1 = Inr (res, coll2)" for n c res coll1 coll2
    using update_one_identity [OF push_comment_identity that] .
  show ?thesis
    by (auto simp: db_post_comment_def one two split: sum.splits option.splits prod.splits)
qed

lemma db_identity_kept:
  "list_all db_keeps_identity ops \<Longrightarrow> map id_and_date (db_run ops coll) = map id_and_date coll"
proof (induction ops arbitrary: coll)
  case Nil
  then show ?case by simp
next
  case (Cons op ops)
  obtain e r where op: "op = (e, r)" by (cases op)
  from Cons.prems op have step: "db_keeps_identity (e, r)" and rest: "list_all db_keeps_identity ops"
    by simp_all
  have "map id_and_date (snd (db_handle e r coll)) = map id_and_date coll"
  proof (cases r)
    case (Update i b)
    with step show ?thesis by (simp add: db_put_applicant_identity del: db_keeps_identity.simps)
  next
    case (AddComment i b)
    then show ?thesis by (simp add: db_post_comment_identity)
  qed (use step in simp_all)
  with Cons.IH [OF rest, of "snd (db_handle e r coll)"] op show ?case by simp
qed

text \<open>
  Claim C4, as amended. Through every sequence of update and comment requests in which no
  update assigns \<open>id\<close> or \<open>dateAdded\<close>, every stored record keeps the \<open>id\<close> and
  \<open>dateAdded\<close> it had, whichever records the requests address and whether or not they
  succeed. On the file backend an update assigns the keys of its payload; on the document
  backend it assigns what the library derives from the payload's declared fields.
\<close>

theorem identity_fields_kept:
  "(list_all keeps_identity ops \<longrightarrow>
      map id_and_date (readApplicants (file_run ops fs)) = map id_and_date (readApplicants fs))
   \<and> (list_all db_keeps_identity db_ops \<longrightarrow>
        map id_and_date (db_run db_ops coll) = map id_and_date coll)"
  using file_identity_kept [of ops fs] db_identity_kept [of db_ops coll] by blast

theorem identity_fields_kept_witness:
  "map id_and_date (readApplicants
     (file_run [(env0, Update ''1700'' [''notes'' \<mapsto> JStr ''x'']),
                (env0, AddComment ''1700'' (comment_of ''Carol'' ''hi''))] fs_one)) =
     [(Some (JNum 1700), Some (JStr ''1/2/2024''))]
   \<and> map id_and_date
       (db_run [(db_env0, Update ''1700'' [''notes'' \<mapsto> JStr ''x'']),
                (db_env0, AddComment ''1700'' (comment_of ''Carol'' ''hi''))] [applicant0]) =
     [(Some (JNum 1700), Some (JStr ''1/2/2024''))]"
proof -
  have ok: "list_all keeps_identity [(env0, Update ''1700'' [''notes'' \<mapsto> JStr ''x'']),
                            (env0, AddComment ''1700'' (comment_of ''Carol'' ''hi''))]"
    by simp
  have db_ok: "list_all db_keeps_identity [(db_env0, Update ''1700'' [''notes'' \<mapsto> JStr ''x'']),
                            (db_env0, AddComment ''1700'' (comment_of ''Carol'' ''hi''))]"
    by (simp add: db_env0_def strict_def applicantSchema_def plain_key_def)
  have start: "map id_and_date (readApplicants fs_one) = [(Some (JNum 1700), Some (JStr ''1/2/2024''))]"
    "map id_and_date [applicant0] = [(Some (JNum 1700), Some (JStr ''1/2/2024''))]"
    by (simp_all add: readApplicants_def fs_one_def applicant0_def id_and_date_def)
  note inst = identity_fields_kept [of
      "[(env0, Update ''1700'' [''notes'' \<mapsto> JStr ''x'']),
        (env0, AddComment ''1700'' (comment_of ''Carol'' ''hi''))]" fs_one
      "[(db_env0, Update ''1700'' [''notes'' \<mapsto> JStr ''x'']),
        (db_env0, AddComment ''1700'' (comment_of ''Carol'' ''hi''))]" "[applicant0]"]
  from inst [THEN conjunct1] ok start(1) have a: "map id_and_date (readApplicants
     (file_run [(env0, Update ''1700'' [''notes'' \<mapsto> JStr ''x'']),
                (env0, AddComment ''1700'' (comment_of ''Carol'' ''hi''))] fs_one)) =
     [(Some (JNum 1700), Some (JStr ''1/2/2024''))]"
    by simp
  from inst [THEN conjunct2] db_ok start(2) have b: "map id_and_date
       (db_run [(db_env0, Update ''1700'' [''notes'' \<mapsto> JStr ''x'']),
                (db_env0, AddComment ''1700'' (comment_of ''Carol'' ''hi''))] [applicant0]) =
     [(Some (JNum 1700), Some (JStr ''1/2/2024''))]"
    by simp
  from a b show ?thesis by (rule conjI)
qed

text \<open>An update payload that names \<open>id\<close> and \<open>dateAdded\<close> overwrites both: the merge
  treats them like any other field.\<close>

theorem identity_fields_counterexample:
  "map id_and_date (readApplicants (file_run [(env0, Insert Map.empty)] fs_empty)) =
     [(Some (JNum 1700), Some (JStr ''1/2/2024''))]
   \<and> map id_and_date (readApplicants
        (file_run [(env0, Insert Map.empty), (env0, Update ''1700'' new_identity)] fs_empty)) =
     [(Some (JNum 99), Some (JStr ''never''))]"
  by (simp add: post_applicant_def put_applicant_def readApplicants_def
      writeApplicants_def fs_empty_def env0_def has_id_def parseInt_1700 id_and_date_def
      new_identity_def Let_def)


text \<open>So does the \<open>$set\<close> of the document backend.\<close>

lemma db_identity_overwritten:
  "map id_and_date (snd (db_handle db_env0 (Update ''1700'' new_identity) [applicant0])) =
     [(Some (JNum 99), Some (JStr ''never''))]"
  by (simp add: db_put_applicant_def cast_number_def db_call_def update_one_def set_fields_def
      db_env0_def parseInt_1700 doc_has_id_def applicant0_def new_identity_def id_and_date_def
      strict_def applicantSchema_def plain_key_def map_add_def)

section \<open>Listing\<close>

text \<open>
  Claim C9, as amended. The file backend lists exactly the records of a readable storage file
  and answers 200 with an empty array when the file is missing or unreadable; the document
  backend lists all documents, and answers 500 when the database operation fails.
\<close>

theorem list_reports_storage:
  "(applicants_file fs = Data applicants \<longrightarrow>
      get_applicants fs = (\<lparr>status = 200, body = JsonBody (JArr (map JObj applicants))\<rparr>, fs))
   \<and> (applicants_file fs = Missing \<or> applicants_file fs = Unreadable \<longrightarrow>
        get_applicants fs = (\<lparr>status = 200, body = JsonBody (JArr [])\<rparr>, fs))
   \<and> (db_fault de 0 = None \<longrightarrow>
        db_get_applicants de coll = (\<lparr>status = 200, body = JsonBody (JArr (map JObj coll))\<rparr>, coll))
   \<and> (db_fault de 0 = Some m \<longrightarrow>
        db_get_applicants de coll =
          (send 500 [''error'' \<mapsto> JStr ''Failed to fetch applicants''], coll))"
  by (auto simp: get_applicants_def readApplicants_def db_get_applicants_def db_call_def)


theorem list_reports_storage_witness:
  "get_applicants fs_one = (\<lparr>status = 200, body = JsonBody (JArr [JObj applicant0])\<rparr>, fs_one)
   \<and> db_get_applicants db_env0 [applicant0] =
       (\<lparr>status = 200, body = JsonBody (JArr [JObj applicant0])\<rparr>, [applicant0])
   \<and> db_get_applicants db_env_down [applicant0] =
       (send 500 [''error'' \<mapsto> JStr ''Failed to fetch applicants''], [applicant0])"
  using list_reports_storage [of fs_one "[applicant0]" db_env0 "[applicant0]" "''x''"]
    list_reports_storage [of fs_one "[applicant0]" db_env_down "[applicant0]" "''connection lost''"]
  by (simp add: fs_one_def db_env0_def db_env_down_def)


text \<open>With an unreadable storage file the file backend reports success and an empty list.\<close>

theorem list_unreadable_counterexample:
  "get_applicants fs_unreadable = (\<lparr>status = 200, body = JsonBody (JArr [])\<rparr>, fs_unreadable)"
  by (simp add: get_applicants_def readApplicants_def fs_unreadable_def)



section \<open>Requests that address a record\<close>

lemma status_failure [simp]: "status (failure code msg) = code"
  by (simp add: failure_def send_def)

lemma status_send [simp]: "status (send code m) = code"
  by (simp add: send_def)












section \<open>Error responses\<close>


















section \<open>Ids that are not numbers\<close>






section \<open>Resume upload\<close>










end
